theory Spec2Isabelle
  imports Complex_Main
begin

section \<open>Data model\<close>

text \<open>
  The dashboard's floats are idealised as \<open>real\<close> numbers: sums and means are exact, and
  NaN and infinities do not occur. Times held in a pandas \<open>datetime64[ns]\<close> column or in a
  \<open>pd.Timestamp\<close> are integers counting nanoseconds since the epoch, within the signed
  64 bits that pandas gives them; a time outside of them is an exception.
\<close>

text \<open>An order event, \<open>{"timestamp": t, "price": price}\<close> in \<open>generate_sales_event\<close>.\<close>

record event =
  timestamp :: real
  price :: real

text \<open>
  A \<open>pd.Series\<close> of floats indexed by bin start: the index entries with their values, in
  the order of the series.
\<close>

type_synonym series = "(int \<times> real) list"

definition tail :: "nat \<Rightarrow> 'a list \<Rightarrow> 'a list" where
  \<comment> \<open>\<open>Series.tail(n)\<close>: the last \<open>n\<close> rows, all of them when there are fewer.\<close>
  "tail n xs = drop (length xs - n) xs"

definition head :: "nat \<Rightarrow> 'a list \<Rightarrow> 'a list" where
  \<comment> \<open>\<open>Series.head(n)\<close>: the first \<open>n\<close> rows.\<close>
  "head n xs = take n xs"

definition series_sum :: "series \<Rightarrow> real" where
  "series_sum s = sum_list (map snd s)"

definition mean :: "series \<Rightarrow> real" where
  \<comment> \<open>\<open>Series.mean()\<close>. pandas gives NaN on an empty series; the forecast only takes
      means of slices of six and three rows.\<close>
  "mean s = series_sum s / real (length s)"

section \<open>Errors\<close>

text \<open>
  The exceptions that the modelled code can raise: Python's division by zero, and the two
  exceptions with which pandas refuses a time that does not fit its signed 64-bit count
  of nanoseconds.
\<close>

datatype error = ZeroDivisionError | OutOfBoundsDatetime | OverflowError

fun map_raise :: "('a \<Rightarrow> error + 'b) \<Rightarrow> 'a list \<Rightarrow> error + 'b list" where
  \<comment> \<open>A conversion applied down a column: the first element that raises ends it.\<close>
  "map_raise f [] = Inr []"
| "map_raise f (x # xs) =
     (case f x of
        Inl err \<Rightarrow> Inl err
      | Inr y \<Rightarrow> (case map_raise f xs of Inl err \<Rightarrow> Inl err | Inr ys \<Rightarrow> Inr (y # ys)))"

section \<open>Aggregation into ten-second bins\<close>

definition ns_per_s :: int where
  "ns_per_s = 1000000000"

definition int64_min :: int where
  \<comment> \<open>The least 64-bit integer, which pandas reserves for \<open>NaT\<close>.\<close>
  "int64_min = - 9223372036854775808"

definition int64_max :: int where
  "int64_max = 9223372036854775807"

definition in_bounds :: "int \<Rightarrow> bool" where
  \<comment> \<open>The nanosecond counts of \<open>Timestamp.min\<close> to \<open>Timestamp.max\<close>.\<close>
  "in_bounds n \<longleftrightarrow> int64_min < n \<and> n \<le> int64_max"

definition round_half_even :: "real \<Rightarrow> int" where
  \<comment> \<open>Rounding to the nearest integer, a tie going to the even neighbour.\<close>
  "round_half_even x =
     (let f = \<lfloor>x\<rfloor>; d = x - real_of_int f
      in if d < 1 / 2 then f else if 1 / 2 < d then f + 1 else if even f then f else f + 1)"

definition to_datetime_s :: "real \<Rightarrow> error + int" where
  \<comment> \<open>\<open>pd.to_datetime(x, unit="s")\<close> on a float of seconds: the count of nanoseconds,
      rounded to the nearest one; \<open>OutOfBoundsDatetime\<close> when that count does not fit.\<close>
  "to_datetime_s t =
     (let n = round_half_even (t * real_of_int ns_per_s)
      in if in_bounds n then Inr n else Inl OutOfBoundsDatetime)"

definition Timestamp :: "real \<Rightarrow> error + int" where
  \<comment> \<open>\<open>pd.Timestamp(x)\<close> of a float with no \<open>unit\<close> argument: pandas reads the number
      in its default unit, nanoseconds, and cuts the fraction off towards zero.\<close>
  "Timestamp x =
     (let n = (if 0 \<le> x then \<lfloor>x\<rfloor> else \<lceil>x\<rceil>)
      in if in_bounds n then Inr n else Inl OutOfBoundsDatetime)"

definition floor_10s :: "int \<Rightarrow> error + int" where
  \<comment> \<open>\<open>.dt.floor("10s")\<close> on a nanosecond time of a column: the time minus its remainder
      by ten seconds, computed with an overflow check.\<close>
  "floor_10s n =
     (let r = n - n mod (10 * ns_per_s)
      in if int64_min \<le> r then Inr r else Inl OverflowError)"

definition Timestamp_floor_10s :: "int \<Rightarrow> error + int" where
  \<comment> \<open>\<open>.floor("10s")\<close> on one \<open>pd.Timestamp\<close>, which reports the overflow as
      \<open>OutOfBoundsDatetime\<close>.\<close>
  "Timestamp_floor_10s n =
     (case floor_10s n of Inl err \<Rightarrow> Inl OutOfBoundsDatetime | Inr r \<Rightarrow> Inr r)"

definition Timedelta_minutes :: "int \<Rightarrow> int" where
  "Timedelta_minutes m = m * 60 * ns_per_s"

definition Timestamp_sub :: "int \<Rightarrow> int \<Rightarrow> error + int" where
  \<comment> \<open>A \<open>pd.Timestamp\<close> minus a \<open>pd.Timedelta\<close>.\<close>
  "Timestamp_sub n delta =
     (if in_bounds (n - delta) then Inr (n - delta) else Inl OutOfBoundsDatetime)"

definition bin_column :: "event list \<Rightarrow> error + int list" where
  \<comment> \<open>The column \<open>df["time"]\<close>, converted as a whole, and from it the column
      \<open>df["bin"]\<close>.\<close>
  "bin_column events =
     (case map_raise to_datetime_s (map timestamp events) of
        Inl err \<Rightarrow> Inl err
      | Inr time \<Rightarrow> map_raise floor_10s time)"

definition groupby_sum :: "(int \<times> real) list \<Rightarrow> series" where
  \<comment> \<open>\<open>df.groupby("bin")["price"].sum()\<close> on the rows \<open>(bin, price)\<close>: one row per
      distinct bin, keys ascending.\<close>
  "groupby_sum rows =
     map (\<lambda>b. (b, sum_list (map snd (filter (\<lambda>r. fst r = b) rows))))
       (sort (remdups (map fst rows)))"

definition date_range_10s :: "int \<Rightarrow> int \<Rightarrow> int list" where
  \<comment> \<open>\<open>pd.date_range(start, end, freq="10s")\<close>: from \<open>start\<close> in steps of ten seconds,
      as long as \<open>end\<close> is not passed; both ends belong to the range.\<close>
  "date_range_10s start end =
     map (\<lambda>k. start + k * (10 * ns_per_s)) [0 .. (end - start) div (10 * ns_per_s)]"

definition reindex :: "series \<Rightarrow> int list \<Rightarrow> real \<Rightarrow> series" where
  \<comment> \<open>\<open>Series.reindex(index, fill_value=v)\<close>: the rows of the new index, with the old
      value where the label exists and \<open>v\<close> elsewhere.\<close>
  "reindex s index fill_value =
     map (\<lambda>i. (i, case map_of s i of Some v \<Rightarrow> v | None \<Rightarrow> fill_value)) index"

definition sort_index :: "series \<Rightarrow> series" where
  "sort_index s = sort_key fst s"

definition end_bin :: "real \<Rightarrow> error + int" where
  "end_bin last_timestamp =
     (case Timestamp last_timestamp of
        Inl err \<Rightarrow> Inl err
      | Inr n \<Rightarrow> Timestamp_floor_10s n)"

definition start_bin :: "real \<Rightarrow> error + int" where
  "start_bin last_timestamp =
     (case end_bin last_timestamp of
        Inl err \<Rightarrow> Inl err
      | Inr eb \<Rightarrow> Timestamp_sub eb (Timedelta_minutes 10))"

definition aggregate_to_10s_bins :: "event list \<Rightarrow> real \<Rightarrow> error + series" where
  "aggregate_to_10s_bins events last_timestamp =
     (if events = [] then Inr []
      else case bin_column events of
        Inl err \<Rightarrow> Inl err
      | Inr bins \<Rightarrow>
          let revenue_by_bin = groupby_sum (zip bins (map price events))
          in case end_bin last_timestamp of
            Inl err \<Rightarrow> Inl err
          | Inr eb \<Rightarrow>
              (case start_bin last_timestamp of
                 Inl err \<Rightarrow> Inl err
               | Inr sb \<Rightarrow>
                   let full_index = date_range_10s sb eb
                   in Inr (sort_index (reindex revenue_by_bin full_index 0))))"

text \<open>
  The window sum in the words of the specification, for comparison with the code: with
  \<open>end_bin = floor (now / bin_width) * bin_width\<close> and
  \<open>start_bin = end_bin - window_duration\<close>, in seconds, the sum of the values of the
  events whose timestamps lie in the half-open interval from \<open>start_bin\<close> to \<open>end_bin\<close>.
\<close>

definition spec_window_sum :: "event list \<Rightarrow> real \<Rightarrow> real" where
  "spec_window_sum evs now =
     (let end_bin_s = real_of_int \<lfloor>now / 10\<rfloor> * 10;
          start_bin_s = end_bin_s - 600
      in sum_list (map price
           (filter (\<lambda>e. start_bin_s \<le> timestamp e \<and> timestamp e < end_bin_s) evs)))"

section \<open>Forecasting\<close>

definition forecast_next_60s_simple :: "series \<Rightarrow> real" where
  "forecast_next_60s_simple revenue_series =
     (if length revenue_series < 6 then 0
      else let recent = tail 6 revenue_series in
        if series_sum recent = 0 then 0
        else let baseline = mean recent;
                 first_30s = mean (head 3 recent);
                 last_30s = mean (tail 3 recent);
                 trend = (if first_30s > 0 then last_30s - first_30s else 0);
                 pred_per_bin = max 0 (baseline + trend / 2)
             in pred_per_bin * 6)"

section \<open>Forecast error\<close>

definition py_div :: "real \<Rightarrow> real \<Rightarrow> error + real" where
  \<comment> \<open>Python's \<open>/\<close> on floats raises when the divisor is zero.\<close>
  "py_div a b = (if b = 0 then Inl ZeroDivisionError else Inr (a / b))"

definition mape :: "real \<Rightarrow> real \<Rightarrow> error + real" where
  \<comment> \<open>The conditional expression assigned to \<open>mape\<close> in the render step.\<close>
  "mape latest_forecast last_60s_actual =
     (if last_60s_actual > 0
      then (case py_div \<bar>latest_forecast - last_60s_actual\<bar> last_60s_actual of
              Inl err \<Rightarrow> Inl err
            | Inr q \<Rightarrow> Inr (q * 100))
      else Inr 0)"

section \<open>Bounded buffers\<close>

definition slice_last :: "nat \<Rightarrow> 'a list \<Rightarrow> 'a list" where
  \<comment> \<open>The slice \<open>xs[-n:]\<close>. For \<open>n = 0\<close> Python reads \<open>xs[0:]\<close>, the whole list.\<close>
  "slice_last n xs = (if n = 0 then xs else drop (length xs - n) xs)"

definition data_append :: "nat \<Rightarrow> 'a list \<Rightarrow> 'a \<Rightarrow> 'a list" where
  \<comment> \<open>\<open>data.append(new_point); data = data[-100:]\<close> of the activity dashboard, with the
      constant 100 as the parameter \<open>c\<close>.\<close>
  "data_append c data new_point = slice_last c (data @ [new_point])"

definition deque_append :: "nat \<Rightarrow> 'a list \<Rightarrow> 'a \<Rightarrow> 'a list" where
  \<comment> \<open>\<open>append\<close> on a \<open>deque(maxlen=c)\<close>: the item goes to the right end and, when the
      deque is longer than \<open>c\<close> afterwards, the leftmost item is dropped.\<close>
  "deque_append c d x = (let d' = d @ [x] in if length d' > c then tl d' else d')"

definition deque_extend :: "nat \<Rightarrow> 'a list \<Rightarrow> 'a list \<Rightarrow> 'a list" where
  \<comment> \<open>\<open>extend\<close> appends the items one by one.\<close>
  "deque_extend c d xs = fold (\<lambda>x acc. deque_append c acc x) xs d"

section \<open>One pass of the forecast dashboard\<close>

record session_state =
  events :: "event list"
  forecasts :: "(real \<times> real) list"
  last_forecast_time :: real
  should_run :: bool

definition buttons :: "bool \<Rightarrow> bool \<Rightarrow> session_state \<Rightarrow> session_state" where
  \<comment> \<open>The Pause and Resume buttons, in the order of the script.\<close>
  "buttons pause_clicked resume_clicked st =
     (let st1 = (if pause_clicked then st\<lparr>should_run := False\<rparr> else st)
      in if resume_clicked then st1\<lparr>should_run := True\<rparr> else st1)"

definition generate_events :: "event list \<Rightarrow> session_state \<Rightarrow> session_state" where
  \<comment> \<open>The ingestion step; \<open>new_events\<close> is what \<open>generate_sales_event\<close> returned.\<close>
  "generate_events new_events st =
     (if should_run st then st\<lparr>events := deque_extend 1000 (events st) new_events\<rparr> else st)"

definition pop0 :: "'a list \<Rightarrow> 'a list" where
  \<comment> \<open>\<open>list.pop(0)\<close>, called on a list of more than twenty entries only.\<close>
  "pop0 xs = tl xs"

text \<open>
  An exception ends the script run. What the run has stored in the session state before
  stays there, so a step returns the state it leaves behind together with the exception,
  if any.
\<close>

definition forecast_step ::
  "real \<Rightarrow> real \<Rightarrow> session_state \<Rightarrow> session_state \<times> error option" where
  "forecast_step current_time forecast_every st =
     (if should_run st \<and> current_time - last_forecast_time st \<ge> forecast_every
      then case aggregate_to_10s_bins (events st) current_time of
          Inl err \<Rightarrow> (st, Some err)
        | Inr revenue_bins \<Rightarrow>
            let forecast_val = forecast_next_60s_simple revenue_bins;
                fs = forecasts st @ [(current_time, forecast_val)];
                fs' = (if length fs > 20 then pop0 fs else fs)
            in (st\<lparr>forecasts := fs', last_forecast_time := current_time\<rparr>, None)
      else (st, None))"

definition refresh_pass ::
  "bool \<Rightarrow> bool \<Rightarrow> event list \<Rightarrow> real \<Rightarrow> real \<Rightarrow> session_state
     \<Rightarrow> session_state \<times> error option" where
  "refresh_pass pause_clicked resume_clicked new_events current_time forecast_every st =
     forecast_step current_time forecast_every
       (generate_events new_events (buttons pause_clicked resume_clicked st))"

section \<open>Properties of the aggregation\<close>








lemma floor_10s_Inr: "floor_10s n = Inr r \<Longrightarrow> r = n div (10 * ns_per_s) * (10 * ns_per_s)"
  by (auto simp: floor_10s_def Let_def minus_mod_eq_div_mult split: if_splits)






lemma end_bin_Inr:
  "end_bin now = Inr eb \<Longrightarrow> \<exists>m. eb = m * (10 * ns_per_s)"
  by (auto simp: end_bin_def Timestamp_floor_10s_def split: sum.splits dest!: floor_10s_Inr)





lemma full_index:
  assumes "sb + 60 * (10 * ns_per_s) = eb"
  shows "date_range_10s sb eb = map (\<lambda>k. sb + k * (10 * ns_per_s)) [0..60]"
proof -
  have "(eb - sb) div (10 * ns_per_s) = 60"
    using assms [symmetric] by (simp add: ns_per_s_def)
  then show ?thesis by (simp add: date_range_10s_def)
qed









text \<open>
  C2. The claim sums the events of the window that ends at
  \<open>floor (now / bin_width) * bin_width\<close>, with \<open>now\<close> in seconds like the event timestamps.
  The code converts the event timestamps with \<open>unit="s"\<close>, but computes the end of the
  window as \<open>pd.Timestamp(last_timestamp)\<close> from the float of seconds that \<open>time.time()\<close>
  returned, which pandas reads as nanoseconds. At the clock value 1700000005 the
  window of the code therefore ends at the epoch. An event stamped 1699999995, ten
  seconds earlier, lies in the window of the claim, which sums to 5; its bin is none of
  the bins the code returns, which sum to 0.
\<close>

theorem aggregate_window_ends_at_epoch:
  "end_bin 1700000005 = Inr 0
   \<and> bin_column [\<lparr>timestamp = 1699999995, price = 5\<rparr>] = Inr [1699999990000000000]
   \<and> map_sum id series_sum
        (aggregate_to_10s_bins [\<lparr>timestamp = 1699999995, price = 5\<rparr>] 1700000005) = Inr 0
   \<and> spec_window_sum [\<lparr>timestamp = 1699999995, price = 5\<rparr>] 1700000005 = 5"
  by code_simp

section \<open>Properties of the forecast\<close>

lemma snd_tail: "map snd (tail n s) = tail n (map snd s)"
  by (simp add: tail_def drop_map)

lemma snd_head: "map snd (head n s) = head n (map snd s)"
  by (simp add: head_def take_map)

lemma mean_vals: "mean s = sum_list (map snd s) / real (length (map snd s))"
  by (simp add: mean_def series_sum_def)

lemma tail_append_exact: "length ys = n \<Longrightarrow> tail n (xs @ ys) = ys"
  by (simp add: tail_def)

lemma tail_append_long: "n \<le> length ys \<Longrightarrow> tail n (xs @ ys) = tail n ys"
  by (simp add: tail_def)

lemma length_tail: "length (tail n xs) = min n (length xs)"
  by (simp add: tail_def)

lemma tail_idem: "tail n (tail n xs) = tail n xs"
  by (simp add: tail_def)

text \<open>
  The forecast written out on the six trailing values \<open>a, b, c, d, e, f\<close> of a series,
  whatever comes before them.
\<close>

lemma forecast_six:
  assumes "map snd s = pre @ [a, b, c, d, e, f]"
  shows "forecast_next_60s_simple s =
     (if a + b + c + d + e + f = 0 then 0
      else 6 * max 0 ((a + b + c + d + e + f) / 6 +
              (if (a + b + c) / 3 > 0 then (d + e + f) / 3 - (a + b + c) / 3 else 0) / 2))"
proof -
  have "length (map snd s) = length (pre @ [a, b, c, d, e, f])"
    using assms by simp
  then have len: "length s = length pre + 6"
    by simp
  have r: "map snd (tail 6 s) = [a, b, c, d, e, f]"
    using assms by (simp add: snd_tail tail_append_exact)
  have h: "map snd (head 3 (tail 6 s)) = [a, b, c]"
    unfolding snd_head [of 3 "tail 6 s"] r by (simp add: head_def)
  have t: "map snd (tail 3 (tail 6 s)) = [d, e, f]"
    unfolding snd_tail [of 3 "tail 6 s"] r by (simp add: tail_def)
  have s6: "series_sum (tail 6 s) = a + b + c + d + e + f"
    by (simp add: series_sum_def r)
  have m6: "mean (tail 6 s) = (a + b + c + d + e + f) / 6"
    by (simp add: mean_vals r)
  have m1: "mean (head 3 (tail 6 s)) = (a + b + c) / 3"
    by (simp add: mean_vals h)
  have m2: "mean (tail 3 (tail 6 s)) = (d + e + f) / 3"
    by (simp add: mean_vals t)
  show ?thesis
    unfolding forecast_next_60s_simple_def Let_def s6 m6 m1 m2
    using len by (simp add: mult.commute)
qed

text \<open>
  C3. A series of at least six bins whose six trailing values \<open>a, b, c, d, e, f\<close> do not
  sum to zero is forecast at six times \<open>max 0 (baseline + trend / 2)\<close>, where the baseline
  is the mean of the six, and the trend is the mean of \<open>d, e, f\<close> minus the mean of
  \<open>a, b, c\<close> when the latter mean is positive and zero otherwise. The bins
  10, 10, 10, 20, 20, 20 are forecast at 120.
\<close>

theorem forecast_trend_formula:
  "(map snd s = pre @ [a, b, c, d, e, f] \<and> a + b + c + d + e + f \<noteq> 0 \<longrightarrow>
      forecast_next_60s_simple s =
        (let baseline = (a + b + c + d + e + f) / 6;
             trend = (if (a + b + c) / 3 > 0 then (d + e + f) / 3 - (a + b + c) / 3 else 0)
         in 6 * max 0 (baseline + trend / 2)))
   \<and> (map snd s = [10, 10, 10, 20, 20, 20] \<longrightarrow> forecast_next_60s_simple s = 120)"
proof (intro conjI impI)
  assume "map snd s = pre @ [a, b, c, d, e, f] \<and> a + b + c + d + e + f \<noteq> 0"
  then show "forecast_next_60s_simple s =
        (let baseline = (a + b + c + d + e + f) / 6;
             trend = (if (a + b + c) / 3 > 0 then (d + e + f) / 3 - (a + b + c) / 3 else 0)
         in 6 * max 0 (baseline + trend / 2))"
    by (simp add: forecast_six [of s pre a b c d e f] Let_def)
next
  assume "map snd s = [10, 10, 10, 20, 20, 20]"
  then have "map snd s = [] @ [10, 10, 10, 20, 20, 20]"
    by simp
  from forecast_six [OF this] show "forecast_next_60s_simple s = 120"
    by simp
qed

theorem forecast_trend_formula_witness:
  "map snd [(0, 10), (1, 10), (2, 10), (3, 20), (4, 20), (5, 20 :: real)]
      = [] @ [10, 10, 10, 20, 20, 20]
   \<and> (10 + 10 + 10 + 20 + 20 + 20 :: real) \<noteq> 0
   \<and> forecast_next_60s_simple [(0, 10), (1, 10), (2, 10), (3, 20), (4, 20), (5, 20)] = 120
   \<and> forecast_next_60s_simple [(7, 1), (0, 3), (1, 3), (2, 3), (3, 1), (4, 1), (5, 1)] = 6"
  using forecast_trend_formula
          [of "[(0, 10), (1, 10), (2, 10), (3, 20), (4, 20), (5, 20)]" "[]" 10 10 10 20 20 20]
        forecast_trend_formula
          [of "[(7, 1), (0, 3), (1, 3), (2, 3), (3, 1), (4, 1), (5, 1)]" "[1]" 3 3 3 1 1 1]
  by (simp add: Let_def)

text \<open>
  C4. For every bin series, also one with negative values, the forecast is at least zero.
\<close>

theorem forecast_nonneg: "0 \<le> forecast_next_60s_simple s"
  by (simp add: forecast_next_60s_simple_def Let_def)

text \<open>
  C5. The forecast is 0, a value and not an error, for the empty series, for every series
  of fewer than six bins (whatever its values), and for every series whose trailing six
  values sum to zero (whatever a trend over them would give).
\<close>

theorem forecast_degenerate:
  "forecast_next_60s_simple [] = 0
   \<and> (length s < 6 \<longrightarrow> forecast_next_60s_simple s = 0)
   \<and> (series_sum (tail 6 s) = 0 \<longrightarrow> forecast_next_60s_simple s = 0)"
  by (simp add: forecast_next_60s_simple_def Let_def)

theorem forecast_degenerate_witness:
  "length [(0, 7), (1, 9 :: real)] < 6
   \<and> forecast_next_60s_simple [(0, 7), (1, 9)] = 0
   \<and> series_sum (tail 6 [(0, 0), (1, 0), (2, 0), (3, 0), (4, 0), (5, 0)]) = 0
   \<and> forecast_next_60s_simple [(0, 0), (1, 0), (2, 0), (3, 0), (4, 0), (5, 0)] = 0"
  using forecast_degenerate [of "[(0, 7), (1, 9)]"]
        forecast_degenerate [of "[(0, 0), (1, 0), (2, 0), (3, 0), (4, 0), (5, 0)]"]
  by (simp add: series_sum_def tail_def)

text \<open>
  C10. The forecast reads the six trailing bins only: a series of at least six bins has
  the forecast of its last six bins, and bins put in front of it do not change the
  forecast.
\<close>

theorem forecast_trailing_six:
  "6 \<le> length s \<longrightarrow>
     forecast_next_60s_simple s = forecast_next_60s_simple (tail 6 s)
     \<and> forecast_next_60s_simple (pre @ s) = forecast_next_60s_simple s"
  by (simp add: forecast_next_60s_simple_def Let_def length_tail tail_idem tail_append_long)

theorem forecast_trailing_six_witness:
  "6 \<le> length [(0, 3), (1, 3), (2, 3), (3, 1), (4, 1), (5, 1 :: real)]
   \<and> forecast_next_60s_simple ([(9, 50), (8, 70)] @ [(0, 3), (1, 3), (2, 3), (3, 1), (4, 1), (5, 1)])
       = forecast_next_60s_simple [(0, 3), (1, 3), (2, 3), (3, 1), (4, 1), (5, 1)]
   \<and> forecast_next_60s_simple [(0, 3), (1, 3), (2, 3), (3, 1), (4, 1), (5, 1)]
       = forecast_next_60s_simple (tail 6 [(0, 3), (1, 3), (2, 3), (3, 1), (4, 1), (5, 1)])"
  using forecast_trailing_six
          [of "[(0, 3), (1, 3), (2, 3), (3, 1), (4, 1), (5, 1)]" "[(9, 50), (8, 70)]"]
  by simp

section \<open>Properties of the forecast error\<close>

text \<open>
  C6. For every predicted and every realized value the error evaluation returns
  \<open>\<bar>predicted - realized\<bar> / realized * 100\<close> when the realized value is positive and
  0 otherwise, in particular when the realized value is 0; it never raises a division
  error.
\<close>

theorem mape_guarded:
  "(0 < realized \<longrightarrow> mape predicted realized = Inr (\<bar>predicted - realized\<bar> / realized * 100))
   \<and> (\<not> 0 < realized \<longrightarrow> mape predicted realized = Inr 0)
   \<and> mape predicted 0 = Inr 0
   \<and> mape predicted realized \<noteq> Inl ZeroDivisionError"
  by (simp add: mape_def py_div_def)

theorem mape_guarded_witness:
  "(0 :: real) < 2 \<and> mape 3 2 = Inr 50 \<and> \<not> (0 :: real) < - 4 \<and> mape 3 (- 4) = Inr 0"
  using mape_guarded [of 2 3] mape_guarded [of "- 4" 3]
  by simp

section \<open>Properties of the bounded buffers\<close>

lemma tail_snoc:
  assumes "1 \<le> c"
  shows "tail c (xs @ [x]) = (if length xs < c then xs @ [x] else tl (tail c xs @ [x]))"
proof (cases "length xs < c")
  case True
  then show ?thesis by (simp add: tail_def)
next
  case False
  then have le: "c \<le> length xs" by simp
  have ne: "tail c xs \<noteq> []"
    using le assms by (simp add: tail_def)
  have "tail c (xs @ [x]) = drop (Suc (length xs - c)) xs @ [x]"
    using le assms by (simp add: tail_def Suc_diff_le)
  also have "\<dots> = tl (tail c xs) @ [x]"
    by (simp add: tail_def drop_Suc tl_drop)
  also have "\<dots> = tl (tail c xs @ [x])"
    using ne by simp
  finally show ?thesis using False by simp
qed

lemma data_append_step:
  assumes "1 \<le> c"
  shows "data_append c (tail c xs) x = tail c (xs @ [x])"
proof (cases "length xs < c")
  case True
  then show ?thesis using assms by (simp add: data_append_def slice_last_def tail_def)
next
  case False
  then have le: "c \<le> length xs" by simp
  then have len: "length (tail c xs) = c" by (simp add: tail_def)
  have "data_append c (tail c xs) x = drop (Suc 0) (tail c xs @ [x])"
    using assms len by (simp add: data_append_def slice_last_def del: drop_append)
  also have "\<dots> = tl (tail c xs @ [x])"
    by (simp only: drop_Suc drop_0)
  finally show ?thesis using False assms by (simp add: tail_snoc)
qed

lemma deque_append_step:
  assumes "1 \<le> c"
  shows "deque_append c (tail c xs) x = tail c (xs @ [x])"
proof (cases "length xs < c")
  case True
  then show ?thesis using assms by (simp add: deque_append_def tail_def)
next
  case False
  then have le: "c \<le> length xs" by simp
  then have len: "length (tail c xs) = c" by (simp add: tail_def)
  have "deque_append c (tail c xs) x = tl (tail c xs @ [x])"
    using len by (simp add: deque_append_def Let_def)
  then show ?thesis using False assms by (simp add: tail_snoc)
qed

lemma fold_data_append:
  "1 \<le> c \<Longrightarrow> fold (\<lambda>x acc. data_append c acc x) xs [] = tail c xs"
proof (induction xs rule: rev_induct)
  case Nil
  then show ?case by (simp add: tail_def)
next
  case (snoc x xs)
  then show ?case by (simp add: data_append_step)
qed

lemma deque_extend_empty:
  "1 \<le> c \<Longrightarrow> deque_extend c [] xs = tail c xs"
  unfolding deque_extend_def
proof (induction xs rule: rev_induct)
  case Nil
  then show ?case by (simp add: tail_def)
next
  case (snoc x xs)
  then show ?case by (simp add: deque_append_step)
qed

lemma tail_min: "tail (min (length xs) c) xs = tail c xs"
  and tail_min': "tail (min c (length xs)) xs = tail c xs"
  by (simp_all add: tail_def min_def)

text \<open>
  C7. For every capacity \<open>c\<close> of at least 1 and every sequence \<open>xs\<close> of events appended
  one by one to an empty buffer, the buffer then has \<open>min (length xs) c\<close> entries, and
  they are the last \<open>min (length xs) c\<close> events of \<open>xs\<close> in the order of insertion. This
  holds for the sliced list of the activity dashboard and for the deque of the forecast
  dashboard; with capacity 100 and 150 appends the buffer holds the last 100.
\<close>

theorem bounded_buffer_keeps_last:
  "1 \<le> c \<longrightarrow>
     fold (\<lambda>x acc. data_append c acc x) xs [] = tail (min (length xs) c) xs
     \<and> length (fold (\<lambda>x acc. data_append c acc x) xs []) = min (length xs) c
     \<and> deque_extend c [] xs = tail (min (length xs) c) xs
     \<and> length (deque_extend c [] xs) = min (length xs) c"
  by (simp add: fold_data_append deque_extend_empty tail_min tail_min' length_tail min.commute)

theorem bounded_buffer_keeps_last_witness:
  "(1 :: nat) \<le> 100
   \<and> fold (\<lambda>x acc. data_append 100 acc x) (map real [0..<150]) [] = map real [50..<150]
   \<and> deque_extend 100 [] (map real [0..<150]) = map real [50..<150]
   \<and> length (deque_extend 100 [] (map real [0..<150])) = 100"
  using bounded_buffer_keeps_last [of 100 "map real [0..<150]"]
  by (simp add: tail_def drop_map)

section \<open>Properties of a paused pass\<close>

text \<open>
  C9. When the pause flag is set at the point where the pass reads it, that is after the
  Pause and Resume buttons of this pass, the pass ingests nothing: the event buffer, the
  forecast history and the time of the last forecast are the same before and after it,
  whatever events the generator would have delivered and whatever the clock shows; and
  the pass raises nothing.
\<close>

theorem paused_pass_unchanged:
  "\<not> should_run (buttons pause_clicked resume_clicked st) \<longrightarrow>
     events (fst (refresh_pass pause_clicked resume_clicked new_events current_time
                    forecast_every st)) = events st
     \<and> forecasts (fst (refresh_pass pause_clicked resume_clicked new_events current_time
                    forecast_every st)) = forecasts st
     \<and> last_forecast_time (fst (refresh_pass pause_clicked resume_clicked new_events
                    current_time forecast_every st)) = last_forecast_time st
     \<and> snd (refresh_pass pause_clicked resume_clicked new_events current_time
                    forecast_every st) = None"
  by (simp add: refresh_pass_def forecast_step_def generate_events_def buttons_def Let_def)

theorem paused_pass_unchanged_witness:
  "\<not> should_run (buttons False False
        \<lparr>events = [\<lparr>timestamp = 1, price = 30\<rparr>], forecasts = [(1, 0)],
         last_forecast_time = 1, should_run = False\<rparr>)
   \<and> events (fst (refresh_pass False False [\<lparr>timestamp = 100, price = 45\<rparr>] 100 20
        \<lparr>events = [\<lparr>timestamp = 1, price = 30\<rparr>], forecasts = [(1, 0)],
         last_forecast_time = 1, should_run = False\<rparr>)) = [\<lparr>timestamp = 1, price = 30\<rparr>]
   \<and> forecasts (fst (refresh_pass False False [\<lparr>timestamp = 100, price = 45\<rparr>] 100 20
        \<lparr>events = [\<lparr>timestamp = 1, price = 30\<rparr>], forecasts = [(1, 0)],
         last_forecast_time = 1, should_run = False\<rparr>)) = [(1, 0)]
   \<and> last_forecast_time (fst (refresh_pass False False [\<lparr>timestamp = 100, price = 45\<rparr>] 100 20
        \<lparr>events = [\<lparr>timestamp = 1, price = 30\<rparr>], forecasts = [(1, 0)],
         last_forecast_time = 1, should_run = False\<rparr>)) = 1
   \<and> snd (refresh_pass False False [\<lparr>timestamp = 100, price = 45\<rparr>] 100 20
        \<lparr>events = [\<lparr>timestamp = 1, price = 30\<rparr>], forecasts = [(1, 0)],
         last_forecast_time = 1, should_run = False\<rparr>) = None"
  using paused_pass_unchanged [of False False
          "\<lparr>events = [\<lparr>timestamp = 1, price = 30\<rparr>], forecasts = [(1, 0)],
            last_forecast_time = 1, should_run = False\<rparr>"
          "[\<lparr>timestamp = 100, price = 45\<rparr>]" 100 20]
  by (simp add: buttons_def)

section \<open>Totality of the core operations\<close>





end
